theory Spec2Isabelle
  imports Complex_Main
begin

section \<open>Parsed request bodies\<close>

text \<open>
  The value that \<open>request.json\<close> hands to the scorer: any JSON value. An object is the
  parsed Python dict, kept as an association list that is read with \<open>map_of\<close>. Numbers
  are exact rationals: the arithmetic of the scorer is modelled over \<open>rat\<close>, without the
  rounding of binary floating point and without NaN or infinities.
\<close>

datatype json =
  JNull
| JBool bool
| JNum rat
| JStr string
| JArr "json list"
| JObj "(string \<times> json) list"

text \<open>
  The exceptions the scorer can raise: \<open>.get\<close> on a value that is not a dict, an
  arithmetic operation or comparison on a value that is not a number, and a division by
  zero.
\<close>

datatype py_error = AttributeError | TypeError | ZeroDivisionError

text \<open>\<open>d.get(k, dflt)\<close>: defined on a dict only.\<close>

definition dict_get :: "json \<Rightarrow> string \<Rightarrow> json \<Rightarrow> py_error + json" where
  "dict_get d k dflt =
     (case d of
        JObj kvs \<Rightarrow> Inr (case map_of kvs k of None \<Rightarrow> dflt | Some v \<Rightarrow> v)
      | _ \<Rightarrow> Inl AttributeError)"

text \<open>
  A value as an operand of \<open>min\<close>, \<open>/\<close> and \<open>>\<close> against a number: Python's \<open>bool\<close> is a
  subclass of \<open>int\<close>, every other non-number raises \<open>TypeError\<close>.
\<close>

definition as_number :: "json \<Rightarrow> py_error + rat" where
  "as_number v =
     (case v of
        JNum q \<Rightarrow> Inr q
      | JBool b \<Rightarrow> Inr (if b then 1 else 0)
      | _ \<Rightarrow> Inl TypeError)"

section \<open>The scorer\<close>

text \<open>The six extracted features (lines 30 to 35 of \<open>app.py\<close>).\<close>

record features =
  avg_smile :: rat
  avg_stress_indicator :: rat
  facial_confidence :: rat
  wpm :: rat
  accuracy :: rat
  voice_level :: rat

record probabilities =
  happy :: rat
  stressed :: rat
  neutral :: rat

record result =
  mood :: string
  stressLevel :: int
  confidence :: rat
  probabilities :: probabilities

text \<open>The weight table of \<open>MoodDetector.__init__\<close>.\<close>

definition weights_facial_smile :: rat where "weights_facial_smile = 0.45"
definition weights_facial_stress :: rat where "weights_facial_stress = 0.30"
definition weights_typing_speed :: rat where "weights_typing_speed = 0.15"
definition weights_typing_accuracy :: rat where "weights_typing_accuracy = 0.10"

text \<open>Feature normalization.\<close>

definition smile_score :: "features \<Rightarrow> rat" where
  "smile_score f = max 0 (min 1 (avg_smile f))"

definition stress_score :: "features \<Rightarrow> rat" where
  "stress_score f = max 0 (min 1 (avg_stress_indicator f))"

definition typing_score :: "features \<Rightarrow> rat" where
  "typing_score f = max 0 (min 1 (wpm f / 80))"

definition accuracy_score :: "features \<Rightarrow> rat" where
  "accuracy_score f = max 0 (min 1 (accuracy f / 100))"

text \<open>The weighted combinations, before the division by \<open>total\<close>.\<close>

definition happy_raw :: "features \<Rightarrow> rat" where
  "happy_raw f =
     weights_facial_smile * smile_score f * 2 +
     weights_typing_speed * typing_score f * 0.5 +
     weights_typing_accuracy * accuracy_score f * 0.3"

definition stressed_raw :: "features \<Rightarrow> rat" where
  "stressed_raw f =
     weights_facial_stress * stress_score f * 2 +
     weights_typing_speed * (1 - typing_score f) * 0.5 +
     weights_typing_accuracy * (1 - accuracy_score f) * 0.3"

definition total_sum :: "features \<Rightarrow> rat" where
  "total_sum f = happy_raw f + stressed_raw f + 0.2"

definition happy_prob :: "features \<Rightarrow> rat" where
  "happy_prob f = happy_raw f / total_sum f"

definition stressed_prob :: "features \<Rightarrow> rat" where
  "stressed_prob f = stressed_raw f / total_sum f"

definition neutral_prob :: "features \<Rightarrow> rat" where
  "neutral_prob f = 0.2 / total_sum f"

text \<open>Determine mood: the \<open>if\<close>/\<open>elif\<close> chain of lines 63 to 74, as (mood, confidence).\<close>

definition determine_mood :: "features \<Rightarrow> string \<times> rat" where
  "determine_mood f =
     (if happy_prob f > 0.5 \<and> smile_score f > 0.6 then (''happy'', happy_prob f)
      else if stressed_prob f > 0.5 \<and> stress_score f > 0.6 then (''stressed'', stressed_prob f)
      else if happy_prob f > stressed_prob f \<and> smile_score f > 0.5 then (''happy'', happy_prob f)
      else (''neutral'', neutral_prob f))"

text \<open>\<open>int(x)\<close> on a number: the fractional part is dropped, towards zero.\<close>

definition py_int :: "rat \<Rightarrow> int" where
  "py_int x = (if 0 \<le> x then \<lfloor>x\<rfloor> else \<lceil>x\<rceil>)"

text \<open>Calculate stress level: lines 77 to 84.\<close>

definition stress_sum :: "features \<Rightarrow> rat" where
  "stress_sum f =
     (stress_score f * 40) +
     ((1 - typing_score f) * 20) +
     ((1 - accuracy_score f) * 15) +
     (voice_level f / 5) -
     (smile_score f * 25)"

definition stress_level :: "features \<Rightarrow> int" where
  "stress_level f = max 0 (min 100 (py_int (stress_sum f)))"

text \<open>
  Adjust based on facial confidence: lines 87 to 93, from the mood and stress level
  computed so far to the ones returned.
\<close>

definition adjust :: "features \<Rightarrow> string \<times> int \<Rightarrow> string \<times> int" where
  "adjust f ms =
     (if facial_confidence f > 0.6 then
        (if smile_score f > 0.7 then (''happy'', max 0 (snd ms - 20))
         else if stress_score f > 0.7 then (''stressed'', min 100 (snd ms + 15))
         else ms)
      else ms)"

text \<open>
  \<open>round(x, 2)\<close>: to the nearest multiple of one hundredth, a tie going to the even
  neighbour.
\<close>

definition round_half_even :: "rat \<Rightarrow> int" where
  "round_half_even x =
     (let fl = \<lfloor>x\<rfloor>; d = x - of_int fl
      in if d < 1 / 2 then fl
         else if 1 / 2 < d then fl + 1
         else if even fl then fl
         else fl + 1)"

definition round2 :: "rat \<Rightarrow> rat" where
  "round2 x = of_int (round_half_even (x * 100)) / 100"

text \<open>
  The body of \<open>MoodDetector.analyze_mood\<close> from line 38 on. The three divisions by
  \<open>total\<close> are the only operations on numbers that can raise.
\<close>

definition score :: "features \<Rightarrow> py_error + result" where
  "score f =
     (if total_sum f = 0 then Inl ZeroDivisionError
      else
        let (m, c) = determine_mood f;
            (m', s') = adjust f (m, stress_level f)
        in Inr \<lparr> mood = m', stressLevel = s', confidence = c,
                 probabilities = \<lparr> happy = round2 (happy_prob f),
                                    stressed = round2 (stressed_prob f),
                                    neutral = round2 (neutral_prob f) \<rparr> \<rparr>)"

text \<open>
  Lines 25 to 35: the three groups, then the six fields with their defaults. Every
  \<open>.get\<close> comes before the first operation on a field, and every field is used on
  every path, so a field that is not a number always ends in \<open>TypeError\<close>.
\<close>

definition and_then :: "'e + 'a \<Rightarrow> ('a \<Rightarrow> 'e + 'b) \<Rightarrow> 'e + 'b" where
  "and_then r k = (case r of Inl e \<Rightarrow> Inl e | Inr x \<Rightarrow> k x)"

definition extract_features :: "json \<Rightarrow> py_error + features" where
  "extract_features data =
     and_then (dict_get data ''facial'' (JObj [])) (\<lambda>facial_data.
     and_then (dict_get data ''typing'' (JObj [])) (\<lambda>typing_data.
     and_then (dict_get data ''voice'' (JObj [])) (\<lambda>voice_data.
     and_then (dict_get facial_data ''avgSmile'' (JNum 0.5)) (\<lambda>v1.
     and_then (dict_get facial_data ''avgStressIndicator'' (JNum 0.5)) (\<lambda>v2.
     and_then (dict_get facial_data ''facialConfidence'' (JNum 0)) (\<lambda>v3.
     and_then (dict_get typing_data ''wpm'' (JNum 0)) (\<lambda>v4.
     and_then (dict_get typing_data ''accuracy'' (JNum 0)) (\<lambda>v5.
     and_then (dict_get voice_data ''avgVoiceLevel'' (JNum 50)) (\<lambda>v6.
     and_then (as_number v1) (\<lambda>a.
     and_then (as_number v2) (\<lambda>b.
     and_then (as_number v4) (\<lambda>w.
     and_then (as_number v5) (\<lambda>acc.
     and_then (as_number v6) (\<lambda>vl.
     and_then (as_number v3) (\<lambda>fc.
       Inr \<lparr> avg_smile = a, avg_stress_indicator = b, facial_confidence = fc,
             wpm = w, accuracy = acc, voice_level = vl \<rparr>)))))))))))))))"

definition analyze_mood :: "json \<Rightarrow> py_error + result" where
  "analyze_mood data = and_then (extract_features data) score"

section \<open>The route \<open>POST /api/analyze\<close>\<close>

text \<open>
  The handler on the parsed body: the status code and the JSON document it answers
  with, \<open>success\<close> and either \<open>result\<close> or \<open>error\<close>.
\<close>

record response =
  status :: nat
  success :: bool
  body_result :: "result option"
  body_error :: "py_error option"

definition analyze_route :: "json \<Rightarrow> response" where
  "analyze_route data =
     (case analyze_mood data of
        Inr r \<Rightarrow> \<lparr> status = 200, success = True, body_result = Some r, body_error = None \<rparr>
      | Inl e \<Rightarrow> \<lparr> status = 500, success = False, body_result = None, body_error = Some e \<rparr>)"

section \<open>Variants and reference inputs\<close>

text \<open>
  The decision list of \<open>determine_mood\<close> with its first two rules in the opposite order:
  not code of the program, only the list that it is compared with.
\<close>

definition determine_mood_swapped :: "features \<Rightarrow> string \<times> rat" where
  "determine_mood_swapped f =
     (if stressed_prob f > 0.5 \<and> stress_score f > 0.6 then (''stressed'', stressed_prob f)
      else if happy_prob f > 0.5 \<and> smile_score f > 0.6 then (''happy'', happy_prob f)
      else if happy_prob f > stressed_prob f \<and> smile_score f > 0.5 then (''happy'', happy_prob f)
      else (''neutral'', neutral_prob f))"

text \<open>Whether a parsed body is a JSON object, a Python dict.\<close>

definition is_dict :: "json \<Rightarrow> bool" where
  "is_dict d = (case d of JObj kvs \<Rightarrow> True | _ \<Rightarrow> False)"

text \<open>
  The requests the scorer is written for: an object in which each of the groups
  \<open>facial\<close>, \<open>typing\<close> and \<open>voice\<close> is absent or an object, and in which each of the six
  fields is absent or a number (a boolean counts as one).
\<close>

definition numeric :: "json \<Rightarrow> bool" where
  "numeric v = (case v of JNum q \<Rightarrow> True | JBool b \<Rightarrow> True | _ \<Rightarrow> False)"

definition absent_or :: "(json \<Rightarrow> bool) \<Rightarrow> (string \<times> json) list \<Rightarrow> string \<Rightarrow> bool" where
  "absent_or P kvs k = (case map_of kvs k of None \<Rightarrow> True | Some v \<Rightarrow> P v)"

definition fields_numeric :: "string list \<Rightarrow> json \<Rightarrow> bool" where
  "fields_numeric ks g =
     (case g of JObj fs \<Rightarrow> list_all (absent_or numeric fs) ks | _ \<Rightarrow> False)"

definition well_formed :: "json \<Rightarrow> bool" where
  "well_formed d =
     (case d of
        JObj kvs \<Rightarrow>
          absent_or (fields_numeric [''avgSmile'', ''avgStressIndicator'', ''facialConfidence''])
            kvs ''facial''
          \<and> absent_or (fields_numeric [''wpm'', ''accuracy'']) kvs ''typing''
          \<and> absent_or (fields_numeric [''avgVoiceLevel'']) kvs ''voice''
      | _ \<Rightarrow> False)"

text \<open>
  Feature values of concrete requests: a smiling, fast and accurate typist; a stressed
  face alone; a face more smiling than tense, and one as smiling as tense; and the empty
  request, every field at its default.
\<close>

definition scenario_happy :: features where
  "scenario_happy =
     \<lparr> avg_smile = 0.9, avg_stress_indicator = 0.1, facial_confidence = 0.8,
       wpm = 60, accuracy = 95, voice_level = 40 \<rparr>"

definition scenario_stressed :: features where
  "scenario_stressed =
     \<lparr> avg_smile = 0.1, avg_stress_indicator = 0.9, facial_confidence = 0.7,
       wpm = 0, accuracy = 0, voice_level = 50 \<rparr>"

definition scenario_fallback :: features where
  "scenario_fallback =
     \<lparr> avg_smile = 0.7, avg_stress_indicator = 0.8, facial_confidence = 0.7,
       wpm = 0, accuracy = 0, voice_level = 50 \<rparr>"

definition scenario_both :: features where
  "scenario_both =
     \<lparr> avg_smile = 0.8, avg_stress_indicator = 0.8, facial_confidence = 0.7,
       wpm = 0, accuracy = 0, voice_level = 50 \<rparr>"

definition scenario_defaults :: features where
  "scenario_defaults =
     \<lparr> avg_smile = 0.5, avg_stress_indicator = 0.5, facial_confidence = 0,
       wpm = 0, accuracy = 0, voice_level = 50 \<rparr>"

section \<open>Normalization\<close>

lemma scores_bounds:
  "0 \<le> smile_score f" "smile_score f \<le> 1"
  "0 \<le> stress_score f" "stress_score f \<le> 1"
  "0 \<le> typing_score f" "typing_score f \<le> 1"
  "0 \<le> accuracy_score f" "accuracy_score f \<le> 1"
  by (simp_all add: smile_score_def stress_score_def typing_score_def accuracy_score_def)

lemma happy_raw_nonneg: "0 \<le> happy_raw f"
  using scores_bounds [of f]
  by (simp add: happy_raw_def weights_facial_smile_def weights_typing_speed_def
      weights_typing_accuracy_def)

lemma stressed_raw_nonneg: "0 \<le> stressed_raw f"
  using scores_bounds [of f]
  by (simp add: stressed_raw_def weights_facial_stress_def weights_typing_speed_def
      weights_typing_accuracy_def)

lemma total_pos: "0 < total_sum f"
  using happy_raw_nonneg [of f] stressed_raw_nonneg [of f]
  by (simp add: total_sum_def)

lemma score_returns:
  "score f =
     Inr \<lparr> mood = fst (adjust f (fst (determine_mood f), stress_level f)),
           stressLevel = snd (adjust f (fst (determine_mood f), stress_level f)),
           confidence = snd (determine_mood f),
           probabilities = \<lparr> happy = round2 (happy_prob f),
                              stressed = round2 (stressed_prob f),
                              neutral = round2 (neutral_prob f) \<rparr> \<rparr>"
  using total_pos [of f] by (simp add: score_def split_beta)


section \<open>The returned stress level\<close>

lemma analyze_mood_Inr:
  "analyze_mood d = Inr r \<Longrightarrow> \<exists>f. extract_features d = Inr f \<and> score f = Inr r"
  by (cases "extract_features d") (simp_all add: analyze_mood_def and_then_def)

lemma stress_level_range: "0 \<le> stress_level f \<and> stress_level f \<le> 100"
  by (simp add: stress_level_def)

lemma adjust_range:
  "0 \<le> s \<Longrightarrow> s \<le> 100 \<Longrightarrow> 0 \<le> snd (adjust f (m, s)) \<and> snd (adjust f (m, s)) \<le> 100"
  by (simp add: adjust_def)

lemma score_stress_range:
  "score f = Inr r \<Longrightarrow> 0 \<le> stressLevel r \<and> stressLevel r \<le> 100"
  using adjust_range [of "stress_level f" f "fst (determine_mood f)"] stress_level_range [of f]
  by (auto simp add: score_returns)

text \<open>
  C3. The \<open>stressLevel\<close> of every returned result is an integer between 0 and 100, the
  adjustment by the facial confidence included: the scorer returns such a result on all
  feature values, and whatever \<open>analyze_mood\<close> returns on a parsed body is such a result.
\<close>

theorem stressLevel_in_range:
  "(\<exists>r. score f = Inr r \<and> 0 \<le> stressLevel r \<and> stressLevel r \<le> 100)
   \<and> (analyze_mood d = Inr r' \<longrightarrow> 0 \<le> stressLevel r' \<and> stressLevel r' \<le> 100)"
proof -
  obtain r where r: "score f = Inr r" by (simp add: score_returns)
  have a: "\<exists>r. score f = Inr r \<and> 0 \<le> stressLevel r \<and> stressLevel r \<le> 100"
    using r score_stress_range [OF r] by blast
  have b: "analyze_mood d = Inr r' \<longrightarrow> 0 \<le> stressLevel r' \<and> stressLevel r' \<le> 100"
    using analyze_mood_Inr [of d r'] score_stress_range by blast
  from a b show ?thesis by blast
qed

theorem stressLevel_in_range_witness:
  "analyze_mood (JObj [(''facial'', JObj [(''avgSmile'', JNum 0.1),
       (''avgStressIndicator'', JNum 0.9), (''facialConfidence'', JNum 0.7)])])
     = Inr \<lparr> mood = ''stressed'', stressLevel = 93, confidence = 129 / 187,
             probabilities = \<lparr> happy = 0.1, stressed = 0.69, neutral = 0.21 \<rparr> \<rparr>
   \<and> (0::int) \<le> 93 \<and> (93::int) \<le> 100"
proof -
  let ?d = "JObj [(''facial'', JObj [(''avgSmile'', JNum 0.1),
       (''avgStressIndicator'', JNum 0.9), (''facialConfidence'', JNum 0.7)])]"
  let ?r = "\<lparr> mood = ''stressed'', stressLevel = 93, confidence = 129 / 187,
             probabilities = \<lparr> happy = 0.1, stressed = 0.69, neutral = 0.21 \<rparr> \<rparr>"
  have h: "analyze_mood ?d = Inr ?r" by code_simp
  from stressLevel_in_range [of scenario_stressed ?d ?r] h
  have "0 \<le> stressLevel ?r \<and> stressLevel ?r \<le> 100" by blast
  with h show ?thesis by simp
qed

section \<open>Mood and confidence\<close>

text \<open>
  C4. Before the adjustment by the facial confidence, mood and confidence follow the
  ordered decision list, the first matching rule winning: happy with \<open>happy_prob\<close>,
  else stressed with \<open>stressed_prob\<close>, else happy with \<open>happy_prob\<close> on the weaker
  condition, else neutral with \<open>neutral_prob\<close>; and the confidence selected there is the
  one returned.
\<close>

theorem determine_mood_decision_list:
  "(happy_prob f > 0.5 \<and> smile_score f > 0.6 \<longrightarrow>
      determine_mood f = (''happy'', happy_prob f))
   \<and> (\<not> (happy_prob f > 0.5 \<and> smile_score f > 0.6)
        \<and> stressed_prob f > 0.5 \<and> stress_score f > 0.6 \<longrightarrow>
      determine_mood f = (''stressed'', stressed_prob f))
   \<and> (\<not> (happy_prob f > 0.5 \<and> smile_score f > 0.6)
        \<and> \<not> (stressed_prob f > 0.5 \<and> stress_score f > 0.6)
        \<and> happy_prob f > stressed_prob f \<and> smile_score f > 0.5 \<longrightarrow>
      determine_mood f = (''happy'', happy_prob f))
   \<and> (\<not> (happy_prob f > 0.5 \<and> smile_score f > 0.6)
        \<and> \<not> (stressed_prob f > 0.5 \<and> stress_score f > 0.6)
        \<and> \<not> (happy_prob f > stressed_prob f \<and> smile_score f > 0.5) \<longrightarrow>
      determine_mood f = (''neutral'', neutral_prob f))
   \<and> (\<exists>r. score f = Inr r \<and> confidence r = snd (determine_mood f))"
  by (simp add: determine_mood_def score_returns)

theorem determine_mood_decision_list_witness:
  "(happy_prob scenario_happy > 0.5 \<and> smile_score scenario_happy > 0.6)
   \<and> determine_mood scenario_happy = (''happy'', happy_prob scenario_happy)
   \<and> (\<not> (happy_prob scenario_stressed > 0.5 \<and> smile_score scenario_stressed > 0.6)
        \<and> stressed_prob scenario_stressed > 0.5 \<and> stress_score scenario_stressed > 0.6)
   \<and> determine_mood scenario_stressed = (''stressed'', stressed_prob scenario_stressed)
   \<and> (\<not> (happy_prob scenario_fallback > 0.5 \<and> smile_score scenario_fallback > 0.6)
        \<and> \<not> (stressed_prob scenario_fallback > 0.5 \<and> stress_score scenario_fallback > 0.6)
        \<and> happy_prob scenario_fallback > stressed_prob scenario_fallback
        \<and> smile_score scenario_fallback > 0.5)
   \<and> determine_mood scenario_fallback = (''happy'', happy_prob scenario_fallback)
   \<and> (\<not> (happy_prob scenario_defaults > 0.5 \<and> smile_score scenario_defaults > 0.6)
        \<and> \<not> (stressed_prob scenario_defaults > 0.5 \<and> stress_score scenario_defaults > 0.6)
        \<and> \<not> (happy_prob scenario_defaults > stressed_prob scenario_defaults
               \<and> smile_score scenario_defaults > 0.5))
   \<and> determine_mood scenario_defaults = (''neutral'', neutral_prob scenario_defaults)"
proof -
  have h1: "happy_prob scenario_happy > 0.5 \<and> smile_score scenario_happy > 0.6"
    by code_simp
  have h2: "\<not> (happy_prob scenario_stressed > 0.5 \<and> smile_score scenario_stressed > 0.6)
        \<and> stressed_prob scenario_stressed > 0.5 \<and> stress_score scenario_stressed > 0.6"
    by code_simp
  have h3: "\<not> (happy_prob scenario_fallback > 0.5 \<and> smile_score scenario_fallback > 0.6)
        \<and> \<not> (stressed_prob scenario_fallback > 0.5 \<and> stress_score scenario_fallback > 0.6)
        \<and> happy_prob scenario_fallback > stressed_prob scenario_fallback
        \<and> smile_score scenario_fallback > 0.5"
    by code_simp
  have h4: "\<not> (happy_prob scenario_defaults > 0.5 \<and> smile_score scenario_defaults > 0.6)
        \<and> \<not> (stressed_prob scenario_defaults > 0.5 \<and> stress_score scenario_defaults > 0.6)
        \<and> \<not> (happy_prob scenario_defaults > stressed_prob scenario_defaults
               \<and> smile_score scenario_defaults > 0.5)"
    by code_simp
  have c1: "determine_mood scenario_happy = (''happy'', happy_prob scenario_happy)"
    using determine_mood_decision_list [of scenario_happy] h1 by blast
  have c2: "determine_mood scenario_stressed = (''stressed'', stressed_prob scenario_stressed)"
    using determine_mood_decision_list [of scenario_stressed] h2 by blast
  have c3: "determine_mood scenario_fallback = (''happy'', happy_prob scenario_fallback)"
    using determine_mood_decision_list [of scenario_fallback] h3 by blast
  have c4: "determine_mood scenario_defaults = (''neutral'', neutral_prob scenario_defaults)"
    using determine_mood_decision_list [of scenario_defaults] h4 by blast
  from h1 h2 h3 h4 c1 c2 c3 c4 show ?thesis by blast
qed

lemma neutral_prob_pos: "0 < neutral_prob f"
  using total_pos [of f] by (simp add: neutral_prob_def)

lemma probs_sum: "happy_prob f + stressed_prob f + neutral_prob f = 1"
proof -
  have "happy_prob f + stressed_prob f + neutral_prob f
        = (happy_raw f + stressed_raw f + 0.2) / total_sum f"
    by (simp add: happy_prob_def stressed_prob_def neutral_prob_def add_divide_distrib)
  also have "\<dots> = 1" using total_pos [of f] by (simp add: total_sum_def)
  finally show ?thesis .
qed

text \<open>
  C8. \<open>happy_prob\<close> and \<open>stressed_prob\<close> never both exceed one half, since with the
  strictly positive \<open>neutral_prob\<close> they sum to one; so the first two rules of the
  decision list exclude each other, and the list with these two rules swapped selects
  the same mood and confidence.
\<close>

theorem first_two_rules_exclusive:
  "\<not> (happy_prob f > 0.5 \<and> stressed_prob f > 0.5)
   \<and> 0 < neutral_prob f
   \<and> determine_mood_swapped f = determine_mood f"
proof -
  have excl: "\<not> (happy_prob f > 0.5 \<and> stressed_prob f > 0.5)"
    using probs_sum [of f] neutral_prob_pos [of f] by auto
  then have "determine_mood_swapped f = determine_mood f"
    by (auto simp add: determine_mood_swapped_def determine_mood_def)
  with excl neutral_prob_pos [of f] show ?thesis by blast
qed

text \<open>
  The confidence returned is always the one of the mood that \<open>determine_mood\<close> selected:
  it is the probability of the returned mood whenever the adjustment by the facial
  confidence leaves that mood as it is.
\<close>

lemma confidence_of_selected_mood:
  assumes "score f = Inr r" and "mood r = fst (determine_mood f)"
  shows "confidence r =
           (if mood r = ''happy'' then happy_prob f
            else if mood r = ''stressed'' then stressed_prob f
            else neutral_prob f)"
  using assms by (auto simp add: score_returns determine_mood_def split: if_splits)

text \<open>
  C1. The claim: the confidence returned is the normalized probability of the mood
  returned, also when the adjustment by the facial confidence changes the mood. The
  adjustment assigns \<open>mood\<close> and leaves \<open>confidence\<close> as \<open>determine_mood\<close> set it. On the
  request below the decision list selects neutral with \<open>neutral_prob = 25 / 193\<close>, the
  adjustment turns the mood into happy, and the result carries mood happy with
  confidence \<open>25 / 193\<close>, while \<open>happy_prob\<close> is \<open>639 / 1544\<close>.
\<close>

theorem override_leaves_confidence_of_other_mood:
  "analyze_mood (JObj [(''facial'', JObj [(''avgSmile'', JNum 0.71),
       (''avgStressIndicator'', JNum 1), (''facialConfidence'', JNum 0.7)])])
     = Inr \<lparr> mood = ''happy'', stressLevel = 47, confidence = 25 / 193,
             probabilities = \<lparr> happy = 0.41, stressed = 0.46, neutral = 0.13 \<rparr> \<rparr>
   \<and> extract_features (JObj [(''facial'', JObj [(''avgSmile'', JNum 0.71),
       (''avgStressIndicator'', JNum 1), (''facialConfidence'', JNum 0.7)])])
     = Inr \<lparr> avg_smile = 0.71, avg_stress_indicator = 1, facial_confidence = 0.7,
             wpm = 0, accuracy = 0, voice_level = 50 \<rparr>
   \<and> happy_prob \<lparr> avg_smile = 0.71, avg_stress_indicator = 1, facial_confidence = 0.7,
             wpm = 0, accuracy = 0, voice_level = 50 \<rparr> = 639 / 1544
   \<and> neutral_prob \<lparr> avg_smile = 0.71, avg_stress_indicator = 1, facial_confidence = 0.7,
             wpm = 0, accuracy = 0, voice_level = 50 \<rparr> = 25 / 193
   \<and> determine_mood \<lparr> avg_smile = 0.71, avg_stress_indicator = 1, facial_confidence = 0.7,
             wpm = 0, accuracy = 0, voice_level = 50 \<rparr> = (''neutral'', 25 / 193)"
  by code_simp

section \<open>The adjustment by the facial confidence\<close>

text \<open>
  C5. With a facial confidence above 0.6 and a smile score above 0.7 the returned mood
  is happy and the returned stress level is the computed one minus 20, not below 0;
  otherwise, with a facial confidence above 0.6 and a stress score above 0.7, the mood
  is stressed and the stress level is the computed one plus 15, not above 100. The first
  case has priority, so the two never apply together; when neither applies, the mood of
  the decision list and the computed stress level are returned unchanged.
\<close>

theorem facial_confidence_adjustment:
  "\<exists>r. score f = Inr r
     \<and> (facial_confidence f > 0.6 \<and> smile_score f > 0.7 \<longrightarrow>
          mood r = ''happy'' \<and> stressLevel r = max 0 (stress_level f - 20))
     \<and> (\<not> (facial_confidence f > 0.6 \<and> smile_score f > 0.7)
          \<and> facial_confidence f > 0.6 \<and> stress_score f > 0.7 \<longrightarrow>
          mood r = ''stressed'' \<and> stressLevel r = min 100 (stress_level f + 15))
     \<and> (\<not> (facial_confidence f > 0.6 \<and> smile_score f > 0.7)
          \<and> \<not> (facial_confidence f > 0.6 \<and> stress_score f > 0.7) \<longrightarrow>
          mood r = fst (determine_mood f) \<and> stressLevel r = stress_level f)"
  by (auto simp add: score_returns adjust_def)

theorem facial_confidence_adjustment_witness:
  "(facial_confidence scenario_happy > 0.6 \<and> smile_score scenario_happy > 0.7)
   \<and> (\<exists>r. score scenario_happy = Inr r \<and> mood r = ''happy''
          \<and> stressLevel r = max 0 (stress_level scenario_happy - 20))
   \<and> (facial_confidence scenario_both > 0.6 \<and> smile_score scenario_both > 0.7
        \<and> stress_score scenario_both > 0.7)
   \<and> (\<exists>r. score scenario_both = Inr r \<and> mood r = ''happy''
          \<and> stressLevel r = max 0 (stress_level scenario_both - 20))
   \<and> (\<not> (facial_confidence scenario_stressed > 0.6 \<and> smile_score scenario_stressed > 0.7)
        \<and> facial_confidence scenario_stressed > 0.6 \<and> stress_score scenario_stressed > 0.7)
   \<and> (\<exists>r. score scenario_stressed = Inr r \<and> mood r = ''stressed''
          \<and> stressLevel r = min 100 (stress_level scenario_stressed + 15))
   \<and> (\<not> (facial_confidence scenario_defaults > 0.6 \<and> smile_score scenario_defaults > 0.7)
        \<and> \<not> (facial_confidence scenario_defaults > 0.6 \<and> stress_score scenario_defaults > 0.7))
   \<and> (\<exists>r. score scenario_defaults = Inr r \<and> mood r = fst (determine_mood scenario_defaults)
          \<and> stressLevel r = stress_level scenario_defaults)"
proof -
  have h1: "facial_confidence scenario_happy > 0.6 \<and> smile_score scenario_happy > 0.7"
    by code_simp
  have h2: "facial_confidence scenario_both > 0.6 \<and> smile_score scenario_both > 0.7
        \<and> stress_score scenario_both > 0.7"
    by code_simp
  have h3: "\<not> (facial_confidence scenario_stressed > 0.6 \<and> smile_score scenario_stressed > 0.7)
        \<and> facial_confidence scenario_stressed > 0.6 \<and> stress_score scenario_stressed > 0.7"
    by code_simp
  have h4: "\<not> (facial_confidence scenario_defaults > 0.6 \<and> smile_score scenario_defaults > 0.7)
        \<and> \<not> (facial_confidence scenario_defaults > 0.6 \<and> stress_score scenario_defaults > 0.7)"
    by code_simp
  have c1: "\<exists>r. score scenario_happy = Inr r \<and> mood r = ''happy''
          \<and> stressLevel r = max 0 (stress_level scenario_happy - 20)"
    using facial_confidence_adjustment [of scenario_happy] h1 by blast
  have c2: "\<exists>r. score scenario_both = Inr r \<and> mood r = ''happy''
          \<and> stressLevel r = max 0 (stress_level scenario_both - 20)"
    using facial_confidence_adjustment [of scenario_both] h2 by blast
  have c3: "\<exists>r. score scenario_stressed = Inr r \<and> mood r = ''stressed''
          \<and> stressLevel r = min 100 (stress_level scenario_stressed + 15)"
    using facial_confidence_adjustment [of scenario_stressed] h3 by blast
  have c4: "\<exists>r. score scenario_defaults = Inr r \<and> mood r = fst (determine_mood scenario_defaults)
          \<and> stressLevel r = stress_level scenario_defaults"
    using facial_confidence_adjustment [of scenario_defaults] h4 by blast
  from h1 h2 h3 h4 c1 c2 c3 c4 show ?thesis by blast
qed

section \<open>The computed stress level\<close>



text \<open>
  The two bounds determine the integer: \<open>py_int x\<close> is the only integer that is no larger
  than \<open>x\<close> in absolute value and less than one away from it.
\<close>

lemma py_int_unique:
  assumes "\<bar>of_int t\<bar> \<le> \<bar>x\<bar>" and "\<bar>x - of_int t\<bar> < 1"
  shows "t = py_int x"
proof (cases "0 \<le> x")
  case True
  with assms have "of_int t \<le> x" "x < of_int t + 1" by linarith+
  then have "\<lfloor>x\<rfloor> = t" by (simp add: floor_unique)
  with True show ?thesis by (simp add: py_int_def)
next
  case False
  with assms have "x \<le> of_int t" "of_int t - 1 < x" by linarith+
  then have "\<lceil>x\<rceil> = t" by (simp add: ceiling_unique)
  with False show ?thesis by (simp add: py_int_def)
qed



section \<open>Monotonicity in the smile\<close>







section \<open>The voice level\<close>

lemma scores_voice_level:
  "smile_score (f\<lparr>voice_level := v\<rparr>) = smile_score f"
  "stress_score (f\<lparr>voice_level := v\<rparr>) = stress_score f"
  "typing_score (f\<lparr>voice_level := v\<rparr>) = typing_score f"
  "accuracy_score (f\<lparr>voice_level := v\<rparr>) = accuracy_score f"
  by (simp_all add: smile_score_def stress_score_def typing_score_def accuracy_score_def)

lemma probs_voice_level:
  "happy_prob (f\<lparr>voice_level := v\<rparr>) = happy_prob f"
  "stressed_prob (f\<lparr>voice_level := v\<rparr>) = stressed_prob f"
  "neutral_prob (f\<lparr>voice_level := v\<rparr>) = neutral_prob f"
  by (simp_all add: happy_prob_def stressed_prob_def neutral_prob_def total_sum_def
      happy_raw_def stressed_raw_def scores_voice_level)

lemma determine_mood_voice_level:
  "determine_mood (f\<lparr>voice_level := v\<rparr>) = determine_mood f"
  by (simp add: determine_mood_def probs_voice_level scores_voice_level)

lemma adjust_mood_voice_level:
  "fst (adjust (f\<lparr>voice_level := v\<rparr>) (m, s)) = fst (adjust f (m, s'))"
  by (simp add: adjust_def scores_voice_level)




section \<open>Bodies that are not objects\<close>

lemma non_dict_raises: "\<not> is_dict d \<Longrightarrow> analyze_mood d = Inl AttributeError"
  by (cases d) (simp_all add: is_dict_def analyze_mood_def extract_features_def
      and_then_def dict_get_def)

lemma extract_features_missing_groups:
  assumes "map_of kvs ''facial'' = None" "map_of kvs ''typing'' = None"
    "map_of kvs ''voice'' = None"
  shows "extract_features (JObj kvs) = Inr scenario_defaults"
  using assms
  by (simp add: extract_features_def and_then_def dict_get_def as_number_def
      scenario_defaults_def)

text \<open>
  C10. On a parsed body that is not a JSON object (null, a list, a number, ...) the
  scorer raises at its first \<open>.get\<close>, and the route answers with status 500,
  \<open>success\<close> false and the error; no default is applied. The defaults are for keys
  missing in an object: an object without the three groups is scored on the default
  features and answered with status 200.
\<close>

theorem non_dict_body_is_server_error:
  "(\<not> is_dict d \<longrightarrow>
      analyze_mood d = Inl AttributeError
      \<and> analyze_route d =
          \<lparr> status = 500, success = False, body_result = None,
            body_error = Some AttributeError \<rparr>)
   \<and> (map_of kvs ''facial'' = None \<and> map_of kvs ''typing'' = None
        \<and> map_of kvs ''voice'' = None \<longrightarrow>
      extract_features (JObj kvs) = Inr scenario_defaults
      \<and> analyze_mood (JObj kvs) = score scenario_defaults
      \<and> status (analyze_route (JObj kvs)) = 200 \<and> success (analyze_route (JObj kvs)))"
  using non_dict_raises [of d] extract_features_missing_groups [of kvs]
  by (auto simp add: analyze_route_def analyze_mood_def and_then_def score_returns)

theorem non_dict_body_is_server_error_witness:
  "\<not> is_dict JNull \<and> \<not> is_dict (JArr [JNum 1]) \<and> \<not> is_dict (JNum 3)
   \<and> analyze_route JNull =
       \<lparr> status = 500, success = False, body_result = None, body_error = Some AttributeError \<rparr>
   \<and> analyze_route (JArr [JNum 1]) =
       \<lparr> status = 500, success = False, body_result = None, body_error = Some AttributeError \<rparr>
   \<and> analyze_route (JNum 3) =
       \<lparr> status = 500, success = False, body_result = None, body_error = Some AttributeError \<rparr>
   \<and> map_of ([] :: (string \<times> json) list) ''facial'' = None
   \<and> extract_features (JObj []) = Inr scenario_defaults
   \<and> status (analyze_route (JObj [])) = 200 \<and> success (analyze_route (JObj []))"
proof -
  have n: "\<not> is_dict JNull" "\<not> is_dict (JArr [JNum 1])" "\<not> is_dict (JNum 3)"
    by (simp_all add: is_dict_def)
  have e: "map_of ([] :: (string \<times> json) list) ''facial'' = None
           \<and> map_of ([] :: (string \<times> json) list) ''typing'' = None
           \<and> map_of ([] :: (string \<times> json) list) ''voice'' = None"
    by simp
  from non_dict_body_is_server_error [of JNull "[]"]
    non_dict_body_is_server_error [of "JArr [JNum 1]" "[]"]
    non_dict_body_is_server_error [of "JNum 3" "[]"] n e
  show ?thesis by blast
qed

section \<open>The requests on which the scorer returns\<close>

lemma and_then_Inr_iff:
  "and_then r k = Inr y \<longleftrightarrow> (\<exists>x. r = Inr x \<and> k x = Inr y)"
  by (cases r) (simp_all add: and_then_def)

lemma as_number_Inr_iff: "(\<exists>q. as_number v = Inr q) \<longleftrightarrow> numeric v"
  by (cases v) (simp_all add: as_number_def numeric_def)

lemma field_number_iff:
  "(\<exists>v q. dict_get (JObj fs) k (JNum dflt) = Inr v \<and> as_number v = Inr q)
     \<longleftrightarrow> absent_or numeric fs k"
  by (cases "map_of fs k")
    (simp_all add: dict_get_def absent_or_def as_number_Inr_iff numeric_def)

lemma group_get_iff:
  "(\<exists>g. dict_get (JObj kvs) k (JObj []) = Inr g \<and> fields_numeric ks g)
     \<longleftrightarrow> absent_or (fields_numeric ks) kvs k"
  by (cases "map_of kvs k")
    (simp_all add: dict_get_def absent_or_def fields_numeric_def list_all_iff)

lemma fields_numeric_JObj:
  "fields_numeric ks g \<longleftrightarrow> (\<exists>fs. g = JObj fs \<and> (\<forall>k\<in>set ks. absent_or numeric fs k))"
  by (cases g) (simp_all add: fields_numeric_def list_all_iff)

lemma dict_get_is_dict: "dict_get d k dflt = Inr v \<Longrightarrow> \<exists>kvs. d = JObj kvs"
  by (cases d) (simp_all add: dict_get_def)

text \<open>
  The scorer returns a result exactly on these requests; on every other body it raises.
\<close>

lemma extract_features_well_formed:
  assumes "extract_features d = Inr f"
  shows "well_formed d"
proof -
  from assms obtain fd td vd v1 v2 v3 v4 v5 v6 a b w acc vl fc where
    g: "dict_get d ''facial'' (JObj []) = Inr fd" "dict_get d ''typing'' (JObj []) = Inr td"
       "dict_get d ''voice'' (JObj []) = Inr vd"
    and x: "dict_get fd ''avgSmile'' (JNum 0.5) = Inr v1"
       "dict_get fd ''avgStressIndicator'' (JNum 0.5) = Inr v2"
       "dict_get fd ''facialConfidence'' (JNum 0) = Inr v3"
       "dict_get td ''wpm'' (JNum 0) = Inr v4"
       "dict_get td ''accuracy'' (JNum 0) = Inr v5"
       "dict_get vd ''avgVoiceLevel'' (JNum 50) = Inr v6"
    and n: "as_number v1 = Inr a" "as_number v2 = Inr b" "as_number v3 = Inr fc"
       "as_number v4 = Inr w" "as_number v5 = Inr acc" "as_number v6 = Inr vl"
    unfolding extract_features_def and_then_Inr_iff by blast
  from g(1) obtain kvs where d: "d = JObj kvs" using dict_get_is_dict by blast
  from x(1) obtain ffs where fd: "fd = JObj ffs" using dict_get_is_dict by blast
  from x(4) obtain tfs where td: "td = JObj tfs" using dict_get_is_dict by blast
  from x(6) obtain vfs where vd: "vd = JObj vfs" using dict_get_is_dict by blast
  have f1: "absent_or numeric ffs ''avgSmile''"
    using x(1) n(1) field_number_iff [of ffs "''avgSmile''" "0.5"] unfolding fd by blast
  have f2: "absent_or numeric ffs ''avgStressIndicator''"
    using x(2) n(2) field_number_iff [of ffs "''avgStressIndicator''" "0.5"] unfolding fd by blast
  have f3: "absent_or numeric ffs ''facialConfidence''"
    using x(3) n(3) field_number_iff [of ffs "''facialConfidence''" 0] unfolding fd by blast
  have f4: "absent_or numeric tfs ''wpm''"
    using x(4) n(4) field_number_iff [of tfs "''wpm''" 0] unfolding td by blast
  have f5: "absent_or numeric tfs ''accuracy''"
    using x(5) n(5) field_number_iff [of tfs "''accuracy''" 0] unfolding td by blast
  have f6: "absent_or numeric vfs ''avgVoiceLevel''"
    using x(6) n(6) field_number_iff [of vfs "''avgVoiceLevel''" 50] unfolding vd by blast
  have F: "fields_numeric [''avgSmile'', ''avgStressIndicator'', ''facialConfidence''] fd"
    using f1 f2 f3 by (simp add: fd fields_numeric_def)
  have T: "fields_numeric [''wpm'', ''accuracy''] td"
    using f4 f5 by (simp add: td fields_numeric_def)
  have V: "fields_numeric [''avgVoiceLevel''] vd"
    using f6 by (simp add: vd fields_numeric_def)
  have "absent_or (fields_numeric [''avgSmile'', ''avgStressIndicator'', ''facialConfidence''])
          kvs ''facial''"
    using g(1) F group_get_iff [of kvs "''facial''"] unfolding d by blast
  moreover have "absent_or (fields_numeric [''wpm'', ''accuracy'']) kvs ''typing''"
    using g(2) T group_get_iff [of kvs "''typing''"] unfolding d by blast
  moreover have "absent_or (fields_numeric [''avgVoiceLevel'']) kvs ''voice''"
    using g(3) V group_get_iff [of kvs "''voice''"] unfolding d by blast
  ultimately show ?thesis by (simp add: well_formed_def d)
qed

lemma well_formed_extract_features:
  assumes "well_formed d"
  shows "\<exists>f. extract_features d = Inr f"
proof -
  from assms obtain kvs where d: "d = JObj kvs"
    by (cases d) (simp_all add: well_formed_def)
  from assms have wf:
    "absent_or (fields_numeric [''avgSmile'', ''avgStressIndicator'', ''facialConfidence''])
          kvs ''facial''"
    "absent_or (fields_numeric [''wpm'', ''accuracy'']) kvs ''typing''"
    "absent_or (fields_numeric [''avgVoiceLevel'']) kvs ''voice''"
    by (simp_all add: well_formed_def d)
  from wf(1) obtain fd where
    g1: "dict_get d ''facial'' (JObj []) = Inr fd"
    and F: "fields_numeric [''avgSmile'', ''avgStressIndicator'', ''facialConfidence''] fd"
    using group_get_iff [of kvs "''facial''"] unfolding d by blast
  from wf(2) obtain td where
    g2: "dict_get d ''typing'' (JObj []) = Inr td"
    and T: "fields_numeric [''wpm'', ''accuracy''] td"
    using group_get_iff [of kvs "''typing''"] unfolding d by blast
  from wf(3) obtain vd where
    g3: "dict_get d ''voice'' (JObj []) = Inr vd"
    and V: "fields_numeric [''avgVoiceLevel''] vd"
    using group_get_iff [of kvs "''voice''"] unfolding d by blast
  from F obtain ffs where fd: "fd = JObj ffs"
    and ff: "\<forall>k\<in>set [''avgSmile'', ''avgStressIndicator'', ''facialConfidence''].
               absent_or numeric ffs k"
    unfolding fields_numeric_JObj by blast
  from T obtain tfs where td: "td = JObj tfs"
    and tf: "\<forall>k\<in>set [''wpm'', ''accuracy'']. absent_or numeric tfs k"
    unfolding fields_numeric_JObj by blast
  from V obtain vfs where vd: "vd = JObj vfs"
    and vf: "\<forall>k\<in>set [''avgVoiceLevel'']. absent_or numeric vfs k"
    unfolding fields_numeric_JObj by blast
  from ff obtain v1 a where x1: "dict_get fd ''avgSmile'' (JNum 0.5) = Inr v1"
    and n1: "as_number v1 = Inr a"
    using field_number_iff [of ffs "''avgSmile''" "0.5"] unfolding fd by auto
  from ff obtain v2 b where x2: "dict_get fd ''avgStressIndicator'' (JNum 0.5) = Inr v2"
    and n2: "as_number v2 = Inr b"
    using field_number_iff [of ffs "''avgStressIndicator''" "0.5"] unfolding fd by auto
  from ff obtain v3 fc where x3: "dict_get fd ''facialConfidence'' (JNum 0) = Inr v3"
    and n3: "as_number v3 = Inr fc"
    using field_number_iff [of ffs "''facialConfidence''" 0] unfolding fd by auto
  from tf obtain v4 w where x4: "dict_get td ''wpm'' (JNum 0) = Inr v4"
    and n4: "as_number v4 = Inr w"
    using field_number_iff [of tfs "''wpm''" 0] unfolding td by auto
  from tf obtain v5 acc where x5: "dict_get td ''accuracy'' (JNum 0) = Inr v5"
    and n5: "as_number v5 = Inr acc"
    using field_number_iff [of tfs "''accuracy''" 0] unfolding td by auto
  from vf obtain v6 vl where x6: "dict_get vd ''avgVoiceLevel'' (JNum 50) = Inr v6"
    and n6: "as_number v6 = Inr vl"
    using field_number_iff [of vfs "''avgVoiceLevel''" 50] unfolding vd by auto
  show ?thesis
    unfolding extract_features_def and_then_Inr_iff
    using g1 g2 g3 x1 x2 x3 x4 x5 x6 n1 n2 n3 n4 n5 n6 by blast
qed

text \<open>
  Adding or replacing the voice group of a request changes the voice level among the
  features, and nothing else among them and in the result but the stress level.
\<close>

lemma extract_features_set_voice:
  assumes "extract_features (JObj kvs) = Inr f"
  shows "extract_features (JObj ((''voice'', JObj [(''avgVoiceLevel'', JNum v)]) # kvs))
         = Inr (f\<lparr>voice_level := v\<rparr>)"
  using assms
  unfolding extract_features_def
  by (auto simp add: and_then_Inr_iff dict_get_def as_number_def)

lemma analyze_mood_returns_iff:
  "(\<exists>r. analyze_mood d = Inr r) \<longleftrightarrow> well_formed d"
proof
  assume "\<exists>r. analyze_mood d = Inr r"
  then show "well_formed d"
    using analyze_mood_Inr extract_features_well_formed by blast
next
  assume "well_formed d"
  then obtain f where "extract_features d = Inr f"
    using well_formed_extract_features by blast
  then show "\<exists>r. analyze_mood d = Inr r"
    by (simp add: analyze_mood_def and_then_def score_returns)
qed

lemma analyze_mood_set_voice:
  assumes "extract_features (JObj kvs) = Inr f"
  shows "\<exists>r r'. analyze_mood (JObj kvs) = Inr r
           \<and> analyze_mood (JObj ((''voice'', JObj [(''avgVoiceLevel'', JNum v)]) # kvs)) = Inr r'
           \<and> mood r' = mood r \<and> confidence r' = confidence r
           \<and> probabilities r' = probabilities r"
  using assms extract_features_set_voice [OF assms, of v]
  by (simp add: analyze_mood_def and_then_def score_returns probs_voice_level
      determine_mood_voice_level
      adjust_mood_voice_level [where s = "stress_level (f\<lparr>voice_level := v\<rparr>)"
        and s' = "stress_level f"])

end
